theory Spec2Isabelle
  imports Complex_Main "HOL-Library.Sublist" "HOL-Library.AList"
begin

section \<open>Python values and exceptions\<close>

text \<open>
  The exceptions that the modelled code can meet. A function that can raise returns
  \<open>py_error + 'a\<close>; one that also leaves state behind returns the error as an option
  next to the state.
\<close>

datatype py_error =
    OSError | ValueError | TypeError | KeyError | UnicodeDecodeError
  | HTTPStatusError nat | TransportError | ProcessorError

text \<open>
  The values \<open>json.loads\<close> produces. An object is a \<open>dict\<close>: an association list in
  insertion order, updated with \<open>AList.update\<close> (an existing key keeps its place, a new
  key goes last). A number is kept as its literal: the ledger never computes with one.
\<close>

datatype json =
    JNull | JBool bool | JNumber string | JString string
  | JArray "json list" | JObject "(string \<times> json) list"

section \<open>drive\_watcher.py\<close>

definition SUPPORTED_EXTENSIONS :: "string list" where
  "SUPPORTED_EXTENSIONS =
     [''.mp4'', ''.avi'', ''.mov'', ''.mkv'', ''.webm'',
      ''.mp3'', ''.wav'', ''.m4a'', ''.aac'', ''.ogg'']"

definition POLL_INTERVAL :: int where "POLL_INTERVAL = 10"
definition STABLE_WAIT :: int where "STABLE_WAIT = 30"

text \<open>
  What is at a path on disk, by what \<open>Path.exists\<close>, \<open>Path.read_text\<close> and
  \<open>json.loads\<close> make of it: no file; a file whose read raises \<open>OSError\<close>; bytes that
  are not text in the default encoding (\<open>read_text\<close> raises \<open>UnicodeDecodeError\<close>);
  text that is not JSON (\<open>JSONDecodeError\<close>); or the text of a JSON document, held as
  the value \<open>json.loads\<close> gives for it. \<open>json.dumps\<close> followed by \<open>json.loads\<close> gives
  back a mapping of strings to JSON values, so writing a mapping leaves \<open>Holds\<close> of it.
\<close>

datatype file_state = Absent | Unreadable | Undecodable | Malformed | Holds json

text \<open>
  \<open>_save\<close> creates the parent directory and rewrites the whole file. The write can
  succeed, fail before the file is touched (\<open>mkdir\<close> or \<open>open\<close> raises), or fail after
  the file was truncated, which leaves a proper prefix of the text: never a JSON
  document. A disk carries the outcomes of its coming writes; when the plan is used up
  writes succeed.
\<close>

datatype write_outcome = Written | WriteRefused | WriteTorn

record disk =
  files :: "string \<Rightarrow> file_state"
  plan :: "write_outcome list"

text \<open>\<open>class FileTracker\<close>: the path of the store and the loaded mapping.\<close>

record tracker =
  path :: string
  processed :: json

definition load :: "tracker \<Rightarrow> disk \<Rightarrow> py_error + tracker" where
  "load t d =
     (case files d (path t) of
        Absent \<Rightarrow> Inr t
      | Unreadable \<Rightarrow> Inr (t\<lparr>processed := JObject []\<rparr>)
      | Undecodable \<Rightarrow> Inl UnicodeDecodeError
      | Malformed \<Rightarrow> Inr (t\<lparr>processed := JObject []\<rparr>)
      | Holds v \<Rightarrow> Inr (t\<lparr>processed := v\<rparr>))"

definition FileTracker :: "string \<Rightarrow> disk \<Rightarrow> py_error + tracker" where
  "FileTracker tracker_path d = load \<lparr>path = tracker_path, processed = JObject []\<rparr> d"

definition save :: "tracker \<Rightarrow> disk \<Rightarrow> py_error option \<times> disk" where
  "save t d =
     (case plan d of
        [] \<Rightarrow> (None, d\<lparr>files := (files d)(path t := Holds (processed t))\<rparr>)
      | Written # rest \<Rightarrow>
          (None, \<lparr>files = (files d)(path t := Holds (processed t)), plan = rest\<rparr>)
      | WriteRefused # rest \<Rightarrow> (Some OSError, d\<lparr>plan := rest\<rparr>)
      | WriteTorn # rest \<Rightarrow>
          (Some OSError, \<lparr>files = (files d)(path t := Malformed), plan = rest\<rparr>))"

text \<open>
  \<open>filepath in self.processed\<close>. The loaded value need not be a \<open>dict\<close>: on a list
  \<open>in\<close> compares elements, on a string it is the substring test, on \<open>null\<close>, a
  boolean or a number it raises \<open>TypeError\<close>.
\<close>

fun py_in :: "string \<Rightarrow> json \<Rightarrow> py_error + bool" where
  "py_in k (JObject kvs) = Inr (k \<in> set (map fst kvs))"
| "py_in k (JArray xs) = Inr (JString k \<in> set xs)"
| "py_in k (JString s) = Inr (sublist k s)"
| "py_in k _ = Inl TypeError"

definition is_processed :: "tracker \<Rightarrow> string \<Rightarrow> py_error + bool" where
  "is_processed t filepath = py_in filepath (processed t)"

definition ledger_entry :: "string \<Rightarrow> bool \<Rightarrow> json" where
  "ledger_entry stamp success =
     JObject [(''timestamp'', JString stamp), (''success'', JBool success)]"

text \<open>
  \<open>self.processed[filepath] = {...}\<close> raises \<open>TypeError\<close> unless the value is a
  \<open>dict\<close>; the entry is set in memory before \<open>_save\<close> runs, so it stays when the write
  fails. \<open>stamp\<close> is the reading of \<open>time.strftime\<close>.
\<close>

definition mark_processed ::
  "tracker \<Rightarrow> string \<Rightarrow> bool \<Rightarrow> string \<Rightarrow> disk \<Rightarrow> py_error option \<times> tracker \<times> disk" where
  "mark_processed t filepath success stamp d =
     (case processed t of
        JObject kvs \<Rightarrow>
          (let t' = t\<lparr>processed := JObject (AList.update filepath (ledger_entry stamp success) kvs)\<rparr>;
               (err, d') = save t' d
           in (err, t', d'))
      | _ \<Rightarrow> (Some TypeError, t, d))"

text \<open>
  \<open>Path(filepath).suffix.lower()\<close>: the name is what follows the last \<open>/\<close>, the suffix
  starts at the last dot of the name unless that dot is its first or last character.
  Paths are byte strings here and \<open>lower\<close> acts on the ASCII letters.
\<close>

definition lower :: "string \<Rightarrow> string" where
  "lower s =
     map (\<lambda>c. let n = (of_char c :: nat) in if 65 \<le> n \<and> n \<le> 90 then char_of (n + 32) else c) s"

definition path_name :: "string \<Rightarrow> string" where
  "path_name p = rev (takeWhile (\<lambda>c. c \<noteq> CHR ''/'') (rev p))"

definition suffix_of :: "string \<Rightarrow> string" where
  "suffix_of p =
     (let name = path_name p;
          i = length name - Suc (length (takeWhile (\<lambda>c. c \<noteq> CHR ''.'') (rev name)))
      in if CHR ''.'' \<in> set name \<and> 0 < i \<and> Suc i < length name then drop i name else [])"

definition is_supported_file :: "string \<Rightarrow> bool" where
  "is_supported_file filepath \<longleftrightarrow> lower (suffix_of filepath) \<in> set SUPPORTED_EXTENSIONS"


text \<open>
  \<open>is_file_stable\<close>. \<open>os.path.getsize\<close> is a function of the file system before and
  after the wait, \<open>None\<close> when it raises \<open>OSError\<close>. \<open>time.sleep\<close> raises
  \<open>ValueError\<close> for a negative duration. The result comes with the list of reads made.
\<close>

definition is_file_stable ::
  "(string \<Rightarrow> nat option) \<Rightarrow> (string \<Rightarrow> nat option) \<Rightarrow> string \<Rightarrow> int
     \<Rightarrow> (py_error + bool) \<times> nat option list" where
  "is_file_stable getsize1 getsize2 filepath wait_seconds =
     (case getsize1 filepath of
        None \<Rightarrow> (Inr False, [None])
      | Some size1 \<Rightarrow>
          if wait_seconds < 0 then (Inl ValueError, [Some size1])
          else (case getsize2 filepath of
                  None \<Rightarrow> (Inr False, [Some size1, None])
                | Some size2 \<Rightarrow>
                    (Inr (size1 = size2 \<and> size2 > 0), [Some size1, Some size2])))"

text \<open>
  \<open>find_new_files\<close>. The inbox is \<open>None\<close> when the directory does not exist, otherwise
  the entries of \<open>sorted(inbox.rglob('*'))\<close> in that order, each with \<open>is_file()\<close> and
  \<open>resolve()\<close>.
\<close>

record dir_entry =
  entry_path :: string
  entry_is_file :: bool
  entry_resolved :: string

fun scan_entries :: "tracker \<Rightarrow> dir_entry list \<Rightarrow> py_error + string list" where
  "scan_entries t [] = Inr []"
| "scan_entries t (e # es) =
     (if entry_is_file e \<and> is_supported_file (entry_path e) then
        (case is_processed t (entry_resolved e) of
           Inl err \<Rightarrow> Inl err
         | Inr True \<Rightarrow> scan_entries t es
         | Inr False \<Rightarrow>
             (case scan_entries t es of
                Inl err \<Rightarrow> Inl err
              | Inr new_files \<Rightarrow> Inr (entry_resolved e # new_files)))
      else scan_entries t es)"

definition find_new_files :: "dir_entry list option \<Rightarrow> tracker \<Rightarrow> py_error + string list" where
  "find_new_files inbox t =
     (case inbox of None \<Rightarrow> Inr [] | Some entries \<Rightarrow> scan_entries t entries)"

text \<open>
  One cycle of \<open>run_watcher\<close>. The environment gives, for a path, the two size reads,
  what \<open>process_single_file\<close> does (returns a flag or raises), the clock reading, and
  whether a termination signal has cleared \<open>running\<close> when the loop reaches the path.
\<close>

record watch_env =
  size_before :: "string \<Rightarrow> nat option"
  size_after :: "string \<Rightarrow> nat option"
  processor :: "string \<Rightarrow> py_error + bool"
  stamp :: "string \<Rightarrow> string"
  interrupted :: "string \<Rightarrow> bool"

definition process_and_mark ::
  "watch_env \<Rightarrow> string \<Rightarrow> tracker \<Rightarrow> disk \<Rightarrow> py_error option \<times> tracker \<times> disk" where
  "process_and_mark env filepath t d =
     (case processor env filepath of
        Inr success \<Rightarrow>
          (case mark_processed t filepath success (stamp env filepath) d of
             (None, t', d') \<Rightarrow> (None, t', d')
           | (Some e, t', d') \<Rightarrow> mark_processed t' filepath False (stamp env filepath) d')
      | Inl e \<Rightarrow> mark_processed t filepath False (stamp env filepath) d)"

fun watch_files ::
  "watch_env \<Rightarrow> string list \<Rightarrow> tracker \<Rightarrow> disk \<Rightarrow> py_error option \<times> tracker \<times> disk" where
  "watch_files env [] t d = (None, t, d)"
| "watch_files env (filepath # rest) t d =
     (if interrupted env filepath then (None, t, d)
      else
        (case fst (is_file_stable (size_before env) (size_after env) filepath STABLE_WAIT) of
           Inl e \<Rightarrow> (Some e, t, d)
         | Inr False \<Rightarrow> watch_files env rest t d
         | Inr True \<Rightarrow>
             (case process_and_mark env filepath t d of
                (Some e, t', d') \<Rightarrow> (Some e, t', d')
              | (None, t', d') \<Rightarrow> watch_files env rest t' d')))"

definition watch_cycle ::
  "watch_env \<Rightarrow> dir_entry list option \<Rightarrow> tracker \<Rightarrow> disk \<Rightarrow> py_error option \<times> tracker \<times> disk" where
  "watch_cycle env inbox t d =
     (case find_new_files inbox t of
        Inl e \<Rightarrow> (Some e, t, d)
      | Inr new_files \<Rightarrow> watch_files env new_files t d)"

text \<open>Names for the statements: the stable paths, the scan's candidates, the ledger's keys.\<close>

definition stable :: "watch_env \<Rightarrow> string \<Rightarrow> bool" where
  "stable env filepath \<longleftrightarrow>
     fst (is_file_stable (size_before env) (size_after env) filepath STABLE_WAIT) = Inr True"

definition candidates :: "dir_entry list option \<Rightarrow> string list" where
  "candidates inbox =
     (case inbox of
        None \<Rightarrow> []
      | Some entries \<Rightarrow>
          map entry_resolved
            (filter (\<lambda>e. entry_is_file e \<and> is_supported_file (entry_path e)) entries))"

definition ledger_keys :: "tracker \<Rightarrow> string set" where
  "ledger_keys t = (case processed t of JObject kvs \<Rightarrow> set (map fst kvs) | _ \<Rightarrow> {})"

definition ledger_success :: "tracker \<Rightarrow> string \<Rightarrow> json option" where
  "ledger_success t filepath =
     (case processed t of
        JObject kvs \<Rightarrow>
          (case map_of kvs filepath of
             Some (JObject entry) \<Rightarrow> map_of entry ''success''
           | _ \<Rightarrow> None)
      | _ \<Rightarrow> None)"

section \<open>zoom/client.py\<close>

definition ZOOM_API_BASE :: string where
  "ZOOM_API_BASE = ''https://api.zoom.us/v2''"

text \<open>
  A row of the \<open>zoom_tokens\<close> table, and the table as a map from the user label. A
  column that holds \<open>null\<close> is \<open>None\<close>.
\<close>

record token_row =
  row_user_label :: string
  row_access_token :: string
  row_refresh_token :: "string option"
  row_expires_at :: int
  row_scopes :: "string option"
  row_updated_at :: string

type_synonym token_table = "string \<Rightarrow> token_row option"

text \<open>The fields of \<open>ZoomClient\<close> that the token logic reads and writes.\<close>

record zoom_client =
  user_label :: string
  access_token :: string
  expires_at :: int

text \<open>
  An HTTP response: the status code and the decoded body, \<open>None\<close> when the body does
  not decode (\<open>resp.json()\<close> raises \<open>ValueError\<close>). The body of a token grant has
  optional keys.
\<close>

record 'a http_response =
  status_code :: nat
  body :: "'a option"

record token_grant =
  grant_access_token :: "string option"
  grant_refresh_token :: "string option"
  grant_expires_in :: "int option"
  grant_scope :: "string option"

text \<open>
  What the client does to the world, in order: a refresh request to the token endpoint
  (with the refresh token sent), a write of a row to \<open>zoom_tokens\<close>, a request with a
  bearer token (the URL and the token).
\<close>

datatype event =
    TokenRequest string
  | DbWrite token_row
  | ApiRequest string string

text \<open>
  The world during one \<open>refresh_token\<close>: the reading of \<open>time.time()\<close>, whether
  \<open>get_zoom_token\<close> raises, the token endpoint's answer to a refresh token (a response,
  or an exception of the transport), whether \<open>save_zoom_token\<close> raises, and the
  \<open>utcnow\<close> stamp it puts on the row.
\<close>

record refresh_env =
  clock :: real
  db_read :: "py_error option"
  post :: "string \<Rightarrow> py_error + token_grant http_response"
  db_write :: "py_error option"
  utcnow :: string

text \<open>\<open>int(x)\<close> on a float truncates towards zero.\<close>

definition py_int :: "real \<Rightarrow> int" where
  "py_int x = (if 0 \<le> x then \<lfloor>x\<rfloor> else \<lceil>x\<rceil>)"

definition refresh_token ::
  "refresh_env \<Rightarrow> zoom_client \<Rightarrow> token_table
     \<Rightarrow> (py_error + bool) \<times> zoom_client \<times> token_table \<times> event list" where
  "refresh_token env c db =
     (case db_read env of
        Some e \<Rightarrow> (Inl e, c, db, [])
      | None \<Rightarrow>
     (case db (user_label c) of
        None \<Rightarrow> (Inr False, c, db, [])
      | Some token \<Rightarrow>
     (case row_refresh_token token of
        None \<Rightarrow> (Inr False, c, db, [])
      | Some rt \<Rightarrow>
          if rt = [] then (Inr False, c, db, [])
          else
     (case post env rt of
        Inl e \<Rightarrow> (Inl e, c, db, [TokenRequest rt])
      | Inr resp \<Rightarrow>
          if status_code resp \<noteq> 200 then (Inr False, c, db, [TokenRequest rt])
          else
     (case body resp of
        None \<Rightarrow> (Inl ValueError, c, db, [TokenRequest rt])
      | Some data \<Rightarrow>
          let new_expires_at =
                py_int (clock env) + (case grant_expires_in data of None \<Rightarrow> 3600 | Some n \<Rightarrow> n)
          in
     (case grant_access_token data of
        None \<Rightarrow> (Inl KeyError, c, db, [TokenRequest rt])
      | Some new_token \<Rightarrow>
          let row = \<lparr>row_user_label = user_label c,
                     row_access_token = new_token,
                     row_refresh_token =
                       Some (case grant_refresh_token data of None \<Rightarrow> rt | Some r \<Rightarrow> r),
                     row_expires_at = new_expires_at,
                     row_scopes =
                       (case grant_scope data of None \<Rightarrow> row_scopes token | Some s \<Rightarrow> Some s),
                     row_updated_at = utcnow env\<rparr>
          in
     (case db_write env of
        Some e \<Rightarrow> (Inl e, c, db, [TokenRequest rt])
      | None \<Rightarrow>
          (Inr True,
           c\<lparr>access_token := new_token, expires_at := new_expires_at\<rparr>,
           db(user_label c \<mapsto> row),
           [TokenRequest rt, DbWrite row]))))))))"

text \<open>
  \<open>_ensure_token\<close>: the result of the refresh is dropped; an exception of the refresh
  passes through.
\<close>

definition ensure_token ::
  "real \<Rightarrow> refresh_env \<Rightarrow> zoom_client \<Rightarrow> token_table
     \<Rightarrow> py_error option \<times> zoom_client \<times> token_table \<times> event list" where
  "ensure_token now env c db =
     (if now > real_of_int (expires_at c - 60) then
        (case refresh_token env c db of
           (Inl e, c', db', evs) \<Rightarrow> (Some e, c', db', evs)
         | (Inr _, c', db', evs) \<Rightarrow> (None, c', db', evs))
      else (None, c, db, []))"

text \<open>
  The world during one authenticated GET: the clock at the check in \<open>_ensure_token\<close>,
  the world of the refresh it may run, and the server's answer to a URL and a bearer
  token. \<open>raise_for_status\<close> raises \<open>HTTPStatusError\<close> unless the status is 2xx.
\<close>

record 'a get_env =
  check_time :: real
  refresh :: refresh_env
  get :: "string \<Rightarrow> string \<Rightarrow> py_error + 'a http_response"

definition raise_for_status :: "'a http_response \<Rightarrow> py_error option" where
  "raise_for_status resp =
     (if 200 \<le> status_code resp \<and> status_code resp < 300 then None
      else Some (HTTPStatusError (status_code resp)))"

definition authed_get ::
  "'a get_env \<Rightarrow> string \<Rightarrow> zoom_client \<Rightarrow> token_table
     \<Rightarrow> (py_error + 'a http_response) \<times> zoom_client \<times> token_table \<times> event list" where
  "authed_get env url c db =
     (case ensure_token (check_time env) (refresh env) c db of
        (Some e, c', db', evs) \<Rightarrow> (Inl e, c', db', evs)
      | (None, c', db', evs) \<Rightarrow>
          (case get env url (access_token c') of
             Inl e \<Rightarrow> (Inl e, c', db', evs @ [ApiRequest url (access_token c')])
           | Inr resp \<Rightarrow>
               (case raise_for_status resp of
                  Some e \<Rightarrow> (Inl e, c', db', evs @ [ApiRequest url (access_token c')])
                | None \<Rightarrow> (Inr resp, c', db', evs @ [ApiRequest url (access_token c')]))))"

definition api_get ::
  "'a get_env \<Rightarrow> string \<Rightarrow> zoom_client \<Rightarrow> token_table
     \<Rightarrow> (py_error + 'a) \<times> zoom_client \<times> token_table \<times> event list" where
  "api_get env api_path c db =
     (case authed_get env (ZOOM_API_BASE @ api_path) c db of
        (Inl e, c', db', evs) \<Rightarrow> (Inl e, c', db', evs)
      | (Inr resp, c', db', evs) \<Rightarrow>
          (case body resp of
             None \<Rightarrow> (Inl ValueError, c', db', evs)
           | Some j \<Rightarrow> (Inr j, c', db', evs)))"

text \<open>
  \<open>get_meeting_transcript\<close>. The recording detail has \<open>recording_files\<close> (missing:
  empty), each with optional \<open>file_type\<close>, \<open>recording_type\<close> and \<open>download_url\<close>. The
  handler around the detail request turns \<open>HTTPStatusError\<close> with status 404 into
  \<open>None\<close> and raises every other exception again. The download of the VTT text is a
  second authenticated GET, outside the handler.
\<close>

record recording_file =
  file_type :: "string option"
  recording_type :: "string option"
  download_url :: "string option"

record transcript =
  content :: string
  transcript_url :: string
  transcript_file_type :: string

record transcript_env =
  detail :: "recording_file list get_env"
  download :: "string get_env"

definition is_transcript_file :: "recording_file \<Rightarrow> bool" where
  "is_transcript_file f \<longleftrightarrow>
     file_type f = Some ''TRANSCRIPT'' \<or> recording_type f = Some ''audio_transcript''"

definition get_meeting_transcript ::
  "transcript_env \<Rightarrow> string \<Rightarrow> zoom_client \<Rightarrow> token_table
     \<Rightarrow> (py_error + transcript option) \<times> zoom_client \<times> token_table \<times> event list" where
  "get_meeting_transcript env meeting_id c db =
     (case api_get (detail env) (''/meetings/'' @ meeting_id @ ''/recordings'') c db of
        (Inl (HTTPStatusError code), c1, db1, evs1) \<Rightarrow>
          if code = 404 then (Inr None, c1, db1, evs1)
          else (Inl (HTTPStatusError code), c1, db1, evs1)
      | (Inl e, c1, db1, evs1) \<Rightarrow> (Inl e, c1, db1, evs1)
      | (Inr recording_files, c1, db1, evs1) \<Rightarrow>
     (case find is_transcript_file recording_files of
        None \<Rightarrow> (Inr None, c1, db1, evs1)
      | Some transcript_file \<Rightarrow>
     (case download_url transcript_file of
        None \<Rightarrow> (Inr None, c1, db1, evs1)
      | Some url \<Rightarrow>
          if url = [] then (Inr None, c1, db1, evs1)
          else
     (case authed_get (download env) url c1 db1 of
        (Inl e, c2, db2, evs2) \<Rightarrow> (Inl e, c2, db2, evs1 @ evs2)
      | (Inr resp, c2, db2, evs2) \<Rightarrow>
          (Inr (Some \<lparr>content = (case body resp of None \<Rightarrow> [] | Some text \<Rightarrow> text),
                       transcript_url = url,
                       transcript_file_type =
                         (case file_type transcript_file of
                            None \<Rightarrow> ''TRANSCRIPT'' | Some ft \<Rightarrow> ft)\<rparr>),
           c2, db2, evs1 @ evs2)))))"

section \<open>zoom/poller.py: directory names from meeting topics\<close>

text \<open>
  A Python \<open>str\<close> is a sequence of Unicode code points; \<open>len\<close>, slicing and the
  regular expressions of \<open>re\<close> work on code points. The topic strings are therefore
  lists of code points. \<open>ustr\<close> writes an ASCII literal as such a list.
\<close>

type_synonym pystr = "nat list"

definition ustr :: "string \<Rightarrow> pystr" where
  "ustr s = map of_char s"

text \<open>
  \<open>str.strip()\<close> and the pattern \<open>\s\<close> of a \<open>str\<close> regular expression use the same
  test on a code point (CPython's \<open>Py_UNICODE_ISSPACE\<close>): the ASCII controls 9 to 13 and
  28 to 31, the space, and the Unicode separators listed below.
\<close>

definition is_space :: "nat \<Rightarrow> bool" where
  "is_space c \<longleftrightarrow>
     (9 \<le> c \<and> c \<le> 13) \<or> (28 \<le> c \<and> c \<le> 32) \<or> c = 133 \<or> c = 160 \<or> c = 5760 \<or>
     (8192 \<le> c \<and> c \<le> 8202) \<or> c = 8232 \<or> c = 8233 \<or> c = 8239 \<or> c = 8287 \<or> c = 12288"

text \<open>The character class \<open>[<>:"/\\|?*]\<close>, by code point, and its replacement by \<open>_\<close> (95).\<close>

definition unsafe_chars :: "nat list" where
  "unsafe_chars = [60, 62, 58, 34, 47, 92, 124, 63, 42]"

definition sub_unsafe :: "pystr \<Rightarrow> pystr" where
  "sub_unsafe name = map (\<lambda>c. if c \<in> set unsafe_chars then 95 else c) name"

definition strip :: "pystr \<Rightarrow> pystr" where
  "strip s = rev (dropWhile is_space (rev (dropWhile is_space s)))"

text \<open>
  \<open>re.sub(r'\s+', '-', s)\<close>: every maximal run of whitespace becomes one hyphen (45).
\<close>

function sub_spaces :: "pystr \<Rightarrow> pystr" where
  "sub_spaces [] = []"
| "sub_spaces (c # cs) =
     (if is_space c then 45 # sub_spaces (dropWhile is_space cs) else c # sub_spaces cs)"
  by pat_completeness auto
termination
  by (relation "measure length") (auto simp: le_imp_less_Suc length_dropWhile_le)

text \<open>\<open>_sanitize_filename\<close>; the last line is \<open>name[:100] or "untitled"\<close>.\<close>

definition sanitize_filename :: "pystr \<Rightarrow> pystr" where
  "sanitize_filename name =
     (let name1 = sub_unsafe name;
          name2 = sub_spaces (strip name1);
          r = take 100 name2
      in if r = [] then ustr ''untitled'' else r)"

section \<open>zoom/poller.py: the poll loop\<close>

text \<open>
  A meeting of the listing; a field is \<open>None\<close> when the key is missing. The identifier
  is kept as the text that \<open>{meeting_id}\<close> and \<open>str(meeting_id)\<close> give for it.
\<close>

record meeting =
  uuid :: "pystr option"
  meeting_id :: "string option"
  topic :: "pystr option"
  start_time :: "pystr option"
  duration :: "int option"

text \<open>
  The two files written for a meeting, the row that \<open>InsForgeDB.mark_processed\<close>
  posts to \<open>zoom_processed\<close>, and a path as the list of its components.
\<close>

record metadata =
  meta_topic :: pystr
  meta_start_time :: pystr
  meta_duration :: "int option"
  meta_meeting_id :: string
  meta_uuid :: pystr
  meta_pulled_at :: pystr

datatype artifact = Vtt string | Meta metadata

record processed_row =
  meeting_uuid :: pystr
  processed_meeting_id :: string
  processed_topic :: pystr
  processed_start_time :: "pystr option"
  processed_duration :: "int option"
  local_path :: "pystr list"

text \<open>
  The state the loop works on: the client and the token table, the requests sent, the
  files written under \<open>data_dir\<close> (in order), the calls of \<open>save_file_fn\<close> (prefix, file
  name, data), the rows of \<open>zoom_processed\<close>, and the counter of \<open>bot_state\<close>.
\<close>

record poll_state =
  client :: zoom_client
  tokens :: token_table
  requests :: "event list"
  local_files :: "(pystr list \<times> artifact) list"
  mirrored :: "(pystr \<times> pystr \<times> artifact) list"
  ledger :: "processed_row list"
  zoom_transcript_count :: nat

text \<open>
  The world of the loop: its arguments, the world of each transcript fetch, the two
  readings of \<open>utcnow\<close>, and for every step that touches the disk, the mirror or the
  ledger whether it raises.
\<close>

datatype poll_step = Mkdir | WriteVtt | WriteMeta | MirrorVtt | MirrorMeta | Mark

record poll_env =
  data_dir :: pystr
  bot_name :: pystr
  save_file_fn :: bool
  transcript_world :: "meeting \<Rightarrow> transcript_env"
  today :: pystr
  pulled :: pystr
  fault :: "meeting \<Rightarrow> poll_step \<Rightarrow> py_error option"

definition fetched :: "poll_state \<Rightarrow> zoom_client \<Rightarrow> token_table \<Rightarrow> event list \<Rightarrow> poll_state" where
  "fetched s c db evs = s\<lparr>client := c, tokens := db, requests := requests s @ evs\<rparr>"

text \<open>
  The effects of one meeting once its transcript is there, in the order of the source:
  the directory, the two files, the two calls of \<open>save_file_fn\<close> (when one is given),
  the ledger row and the counter. The first step that raises ends them.
\<close>

definition write_artifacts ::
  "poll_env \<Rightarrow> meeting \<Rightarrow> pystr list \<Rightarrow> pystr \<Rightarrow> artifact \<Rightarrow> artifact \<Rightarrow> processed_row
     \<Rightarrow> poll_state \<Rightarrow> py_error option \<times> bool \<times> poll_state" where
  "write_artifacts env m local_dir key_prefix vtt meta row s =
     (case fault env m Mkdir of Some e \<Rightarrow> (Some e, False, s) | None \<Rightarrow>
      case fault env m WriteVtt of Some e \<Rightarrow> (Some e, False, s) | None \<Rightarrow>
      let s1 = s\<lparr>local_files := local_files s @ [(local_dir @ [ustr ''transcript.vtt''], vtt)]\<rparr> in
      case fault env m WriteMeta of Some e \<Rightarrow> (Some e, False, s1) | None \<Rightarrow>
      let s2 = s1\<lparr>local_files := local_files s1 @ [(local_dir @ [ustr ''metadata.json''], meta)]\<rparr> in
      case (if save_file_fn env then fault env m MirrorVtt else None) of
        Some e \<Rightarrow> (Some e, False, s2) | None \<Rightarrow>
      let s3 = (if save_file_fn env
                then s2\<lparr>mirrored := mirrored s2 @ [(key_prefix, ustr ''transcript.vtt'', vtt)]\<rparr>
                else s2) in
      case (if save_file_fn env then fault env m MirrorMeta else None) of
        Some e \<Rightarrow> (Some e, False, s3) | None \<Rightarrow>
      let s4 = (if save_file_fn env
                then s3\<lparr>mirrored := mirrored s3 @ [(key_prefix, ustr ''metadata.json'', meta)]\<rparr>
                else s3) in
      case fault env m Mark of Some e \<Rightarrow> (Some e, False, s4) | None \<Rightarrow>
      (None, True,
       s4\<lparr>ledger := ledger s4 @ [row],
          zoom_transcript_count := Suc (zoom_transcript_count s4)\<rparr>))"

definition save_transcript ::
  "poll_env \<Rightarrow> meeting \<Rightarrow> pystr \<Rightarrow> transcript \<Rightarrow> poll_state \<Rightarrow> py_error option \<times> bool \<times> poll_state" where
  "save_transcript env m the_uuid tr s =
     (let the_id = (case meeting_id m of None \<Rightarrow> [] | Some i \<Rightarrow> i);
          the_topic = (case topic m of None \<Rightarrow> ustr ''untitled'' | Some t \<Rightarrow> t);
          the_start = (case start_time m of None \<Rightarrow> [] | Some t \<Rightarrow> t);
          date_str = (if the_start \<noteq> [] then take 10 the_start else today env);
          safe_topic = sanitize_filename the_topic;
          local_dir = [data_dir env, bot_name env, ustr ''zoom'', date_str, safe_topic];
          vtt = Vtt (content tr);
          meta = Meta \<lparr>meta_topic = the_topic, meta_start_time = the_start,
                       meta_duration = duration m, meta_meeting_id = the_id,
                       meta_uuid = the_uuid, meta_pulled_at = pulled env\<rparr>;
          key_prefix = bot_name env @ ustr ''/zoom/'' @ date_str @ ustr ''/'' @ safe_topic;
          row = \<lparr>meeting_uuid = the_uuid, processed_meeting_id = the_id,
                 processed_topic = (case topic m of None \<Rightarrow> [] | Some t \<Rightarrow> t),
                 processed_start_time = start_time m, processed_duration = duration m,
                 local_path = local_dir\<rparr>
      in write_artifacts env m local_dir key_prefix vtt meta row s)"

text \<open>
  The body of \<open>for meeting in meetings\<close>. The result is the exception that left the
  loop (if any), whether \<open>new_count\<close> was incremented, and the state. \<open>processed\<close> is
  the set of identifiers read before the loop.
\<close>

definition poll_meeting ::
  "poll_env \<Rightarrow> pystr list \<Rightarrow> meeting \<Rightarrow> poll_state \<Rightarrow> py_error option \<times> bool \<times> poll_state" where
  "poll_meeting env processed_uuids m s =
     (let the_uuid = (case uuid m of None \<Rightarrow> [] | Some u \<Rightarrow> u) in
      if the_uuid = [] \<or> the_uuid \<in> set processed_uuids then (None, False, s)
      else
        (case get_meeting_transcript (transcript_world env m)
                (case meeting_id m of None \<Rightarrow> [] | Some i \<Rightarrow> i) (client s) (tokens s) of
           (Inl e, c', db', evs) \<Rightarrow> (Some e, False, fetched s c' db' evs)
         | (Inr None, c', db', evs) \<Rightarrow> (None, False, fetched s c' db' evs)
         | (Inr (Some tr), c', db', evs) \<Rightarrow>
             save_transcript env m the_uuid tr (fetched s c' db' evs)))"

fun poll_meetings ::
  "poll_env \<Rightarrow> pystr list \<Rightarrow> meeting list \<Rightarrow> nat \<Rightarrow> poll_state \<Rightarrow> py_error option \<times> nat \<times> poll_state" where
  "poll_meetings env processed_uuids [] new_count s = (None, new_count, s)"
| "poll_meetings env processed_uuids (m # ms) new_count s =
     (case poll_meeting env processed_uuids m s of
        (Some e, _, s') \<Rightarrow> (Some e, new_count, s')
      | (None, counted, s') \<Rightarrow>
          poll_meetings env processed_uuids ms (if counted then Suc new_count else new_count) s')"

text \<open>
  One pass of \<open>while True\<close>, up to the sleep: load the token (no token: the cycle
  pauses), list the recordings, read the processed identifiers, run the loop. The
  handler at the end of the pass catches every exception; the model returns it.
\<close>

record cycle_env =
  load_fault :: "py_error option"
  listing :: "meeting list option get_env"
  ledger_fault :: "py_error option"
  poll :: poll_env

definition zoom_poll_cycle :: "cycle_env \<Rightarrow> poll_state \<Rightarrow> py_error option \<times> nat \<times> poll_state" where
  "zoom_poll_cycle env s =
     (case load_fault env of
        Some e \<Rightarrow> (Some e, 0, s)
      | None \<Rightarrow>
     (case tokens s (user_label (client s)) of
        None \<Rightarrow> (None, 0, s)
      | Some token \<Rightarrow>
          let c = (client s)\<lparr>access_token := row_access_token token,
                             expires_at := row_expires_at token\<rparr>
          in
     (case api_get (listing env) ''/users/me/recordings'' c (tokens s) of
        (Inl e, c', db', evs) \<Rightarrow> (Some e, 0, fetched s c' db' evs)
      | (Inr recordings, c', db', evs) \<Rightarrow>
          let meetings = (case recordings of None \<Rightarrow> [] | Some ms \<Rightarrow> ms);
              s' = fetched s c' db' evs
          in
          if meetings = [] then (None, 0, s')
          else
     (case ledger_fault env of
        Some e \<Rightarrow> (Some e, 0, s')
      | None \<Rightarrow> poll_meetings (poll env) (map meeting_uuid (ledger s')) meetings 0 s'))))"

section \<open>telegram\_bot.py: mirroring a directory to and from the object store\<close>














section \<open>A small world for the poll loop\<close>

text \<open>
  One stored token that is valid for a long time, a server whose answer to the
  recording detail is a parameter, and one listed meeting whose \<open>uuid\<close> is a parameter.
\<close>

definition ex_client :: zoom_client where
  "ex_client = \<lparr>user_label = ''default'', access_token = ''tok'', expires_at = 5000\<rparr>"

definition ex_tokens :: token_table where
  "ex_tokens =
     [''default'' \<mapsto>
        \<lparr>row_user_label = ''default'', row_access_token = ''tok'',
         row_refresh_token = Some ''r0'', row_expires_at = 5000,
         row_scopes = Some ''recording:read'', row_updated_at = ''2026-01-01T00:00:00''\<rparr>]"

definition ex_refresh :: refresh_env where
  "ex_refresh =
     \<lparr>clock = 1000, db_read = None, post = (\<lambda>_. Inl TransportError),
      db_write = None, utcnow = ''2026-01-01T00:00:00''\<rparr>"

definition ex_transcript_env :: "recording_file list http_response \<Rightarrow> transcript_env" where
  "ex_transcript_env resp =
     \<lparr>detail = \<lparr>check_time = 1000, refresh = ex_refresh, get = (\<lambda>_ _. Inr resp)\<rparr>,
      download = \<lparr>check_time = 1000, refresh = ex_refresh,
                  get = (\<lambda>_ _. Inr \<lparr>status_code = 200, body = Some ''WEBVTT''\<rparr>)\<rparr>\<rparr>"

definition ex_poll_env :: "recording_file list http_response \<Rightarrow> poll_env" where
  "ex_poll_env resp =
     \<lparr>data_dir = ustr ''data'', bot_name = ustr ''bot'', save_file_fn = True,
      transcript_world = (\<lambda>_. ex_transcript_env resp),
      today = ustr ''2026-01-02'', pulled = ustr ''2026-01-02T08:00:00'',
      fault = (\<lambda>_ _. None)\<rparr>"

definition ex_state :: poll_state where
  "ex_state =
     \<lparr>client = ex_client, tokens = ex_tokens, requests = [], local_files = [],
      mirrored = [], ledger = [], zoom_transcript_count = 0\<rparr>"

definition ex_meeting :: "pystr option \<Rightarrow> meeting" where
  "ex_meeting u =
     \<lparr>uuid = u, meeting_id = Some ''123'', topic = Some (ustr ''Review''),
      start_time = Some (ustr ''2026-01-01T10:00:00Z''), duration = Some 30\<rparr>"

section \<open>Properties of the directory watcher\<close>



lemma save_ok_holds:
  "save t d = (None, d') \<Longrightarrow> files d' (path t) = Holds (processed t)"
  by (auto simp: save_def split: list.splits write_outcome.splits)

lemma save_no_plan: "plan d = [] \<Longrightarrow> fst (save t d) = None"
  by (simp add: save_def)

lemma py_in_update: "py_in i (JObject (AList.update i v kvs)) = Inr True"
  by (simp add: AList.dom_update)

text \<open>
  C2: when \<open>mark_processed(i, s)\<close> has returned, the identity is in the ledger, and a
  fresh \<open>FileTracker\<close> built over the same disk (a restart) loads the same mapping, so
  \<open>is_processed(i)\<close> is true there as well. The mark returns whenever the ledger holds a
  mapping and the write is not refused: every mark writes the whole mapping through.
\<close>

theorem mark_processed_survives_reload:
  "(processed t = JObject kvs \<and> plan d = [] \<longrightarrow> fst (mark_processed t i s ts d) = None) \<and>
   (mark_processed t i s ts d = (None, t', d') \<longrightarrow>
      is_processed t' i = Inr True \<and>
      (\<exists>t2. FileTracker (path t) d' = Inr t2 \<and> processed t2 = processed t' \<and>
            is_processed t2 i = Inr True))"
proof (intro conjI impI)
  assume "processed t = JObject kvs \<and> plan d = []"
  then show "fst (mark_processed t i s ts d) = None"
    by (simp add: mark_processed_def Let_def split_beta save_no_plan)
next
  assume m: "mark_processed t i s ts d = (None, t', d')"
  then obtain kvs0 where obj: "processed t = JObject kvs0"
    by (cases "processed t") (simp_all add: mark_processed_def)
  let ?kvs = "AList.update i (ledger_entry ts s) kvs0"
  from m obj have t': "t' = t\<lparr>processed := JObject ?kvs\<rparr>"
    and sv: "save (t\<lparr>processed := JObject ?kvs\<rparr>) d = (None, d')"
    by (auto simp: mark_processed_def Let_def split: prod.splits)
  from sv have held: "files d' (path t) = Holds (JObject ?kvs)"
    by (auto dest: save_ok_holds)
  show "is_processed t' i = Inr True"
    by (simp add: t' is_processed_def py_in_update del: py_in.simps)
  show "\<exists>t2. FileTracker (path t) d' = Inr t2 \<and> processed t2 = processed t' \<and>
            is_processed t2 i = Inr True"
    by (simp add: FileTracker_def load_def held t' is_processed_def py_in_update del: py_in.simps)
qed


theorem mark_processed_survives_reload_witness:
  "processed \<lparr>path = ''/srv/inbox/processed_files.json'', processed = JObject []\<rparr> = JObject [] \<and>
   plan \<lparr>files = (\<lambda>_. Absent), plan = []\<rparr> = [] \<and>
   mark_processed \<lparr>path = ''/srv/inbox/processed_files.json'', processed = JObject []\<rparr>
       ''/srv/inbox/a.mp4'' False ''2026-01-01T00:00:00'' \<lparr>files = (\<lambda>_. Absent), plan = []\<rparr>
     = (None,
        \<lparr>path = ''/srv/inbox/processed_files.json'',
         processed = JObject [(''/srv/inbox/a.mp4'', ledger_entry ''2026-01-01T00:00:00'' False)]\<rparr>,
        \<lparr>files = (\<lambda>_. Absent)(''/srv/inbox/processed_files.json'' :=
           Holds (JObject [(''/srv/inbox/a.mp4'', ledger_entry ''2026-01-01T00:00:00'' False)])),
         plan = []\<rparr>) \<and>
   FileTracker ''/srv/inbox/processed_files.json''
       \<lparr>files = (\<lambda>_. Absent)(''/srv/inbox/processed_files.json'' :=
           Holds (JObject [(''/srv/inbox/a.mp4'', ledger_entry ''2026-01-01T00:00:00'' False)])),
         plan = []\<rparr>
     = Inr \<lparr>path = ''/srv/inbox/processed_files.json'',
         processed = JObject [(''/srv/inbox/a.mp4'', ledger_entry ''2026-01-01T00:00:00'' False)]\<rparr> \<and>
   is_processed \<lparr>path = ''/srv/inbox/processed_files.json'',
         processed = JObject [(''/srv/inbox/a.mp4'', ledger_entry ''2026-01-01T00:00:00'' False)]\<rparr>
       ''/srv/inbox/a.mp4'' = Inr True"
  using mark_processed_survives_reload
    [of "\<lparr>path = ''/srv/inbox/processed_files.json'', processed = JObject []\<rparr>" "[]"
        "\<lparr>files = (\<lambda>_. Absent), plan = []\<rparr>" "''/srv/inbox/a.mp4''" False
        "''2026-01-01T00:00:00''"]
  by (simp add: mark_processed_def save_def FileTracker_def load_def is_processed_def Let_def)

lemma scan_entries_obj:
  "processed t = JObject kvs \<Longrightarrow>
   scan_entries t es =
     Inr (filter (\<lambda>p. p \<notin> set (map fst kvs)) (candidates (Some es)))"
  by (induction es) (simp_all add: candidates_def is_processed_def)

lemma find_new_files_obj:
  "processed t = JObject kvs \<Longrightarrow>
   find_new_files inbox t = Inr (filter (\<lambda>p. p \<notin> ledger_keys t) (candidates inbox))"
  by (cases inbox) (simp_all add: find_new_files_def scan_entries_obj ledger_keys_def candidates_def)

lemma mark_processed_obj:
  "processed t = JObject kvs \<Longrightarrow> mark_processed t f s ts d = (err, t', d') \<Longrightarrow>
   processed t' = JObject (AList.update f (ledger_entry ts s) kvs)"
  by (auto simp: mark_processed_def Let_def split: prod.splits)

lemma mark_processed_keys:
  "processed t = JObject kvs \<Longrightarrow> mark_processed t f s ts d = (err, t', d') \<Longrightarrow>
   (\<exists>kvs'. processed t' = JObject kvs') \<and> ledger_keys t' = insert f (ledger_keys t)"
proof -
  assume o: "processed t = JObject kvs" and m: "mark_processed t f s ts d = (err, t', d')"
  from mark_processed_obj [OF o m] o show ?thesis
    by (simp add: ledger_keys_def AList.dom_update)
qed

lemma process_and_mark_keys:
  assumes "processed t = JObject kvs" and "process_and_mark env f t d = (err, t', d')"
  shows "(\<exists>kvs'. processed t' = JObject kvs') \<and> ledger_keys t' = insert f (ledger_keys t)"
proof (cases "processor env f")
  case (Inl e)
  with assms show ?thesis
    by (auto simp: process_and_mark_def dest: mark_processed_keys)
next
  case (Inr success)
  obtain e1 t1 d1 where m1: "mark_processed t f success (stamp env f) d = (e1, t1, d1)"
    by (cases "mark_processed t f success (stamp env f) d") auto
  from mark_processed_keys [OF assms(1) m1]
  obtain kvs1 where o1: "processed t1 = JObject kvs1" and k1: "ledger_keys t1 = insert f (ledger_keys t)"
    by auto
  show ?thesis
  proof (cases e1)
    case None
    with assms(2) Inr m1 have "t' = t1" by (simp add: process_and_mark_def)
    with o1 k1 show ?thesis by simp
  next
    case (Some e)
    with assms(2) Inr m1 have "mark_processed t1 f False (stamp env f) d1 = (err, t', d')"
      by (simp add: process_and_mark_def)
    from mark_processed_keys [OF o1 this] k1 show ?thesis by auto
  qed
qed

lemma watch_files_keys:
  "processed t = JObject kvs \<Longrightarrow> watch_files env fs t d = (None, t', d') \<Longrightarrow>
   \<forall>f \<in> set fs. \<not> interrupted env f \<Longrightarrow>
   (\<exists>kvs'. processed t' = JObject kvs') \<and>
   ledger_keys t' = ledger_keys t \<union> {f \<in> set fs. stable env f}"
proof (induction fs arbitrary: t d kvs)
  case Nil
  then show ?case by simp
next
  case (Cons f fs)
  show ?case
  proof (cases "stable env f")
    case False
    then have "fst (is_file_stable (size_before env) (size_after env) f STABLE_WAIT) = Inr False"
      by (auto simp: stable_def is_file_stable_def STABLE_WAIT_def split: option.splits)
    with Cons.prems have "watch_files env fs t d = (None, t', d')" by simp
    from Cons.IH [OF Cons.prems(1) this] Cons.prems(3) False show ?thesis by auto
  next
    case True
    then have st: "fst (is_file_stable (size_before env) (size_after env) f STABLE_WAIT) = Inr True"
      by (simp add: stable_def)
    obtain e1 t1 d1 where pm: "process_and_mark env f t d = (e1, t1, d1)"
      by (cases "process_and_mark env f t d") auto
    from process_and_mark_keys [OF Cons.prems(1) pm]
    obtain kvs1 where o1: "processed t1 = JObject kvs1"
      and k1: "ledger_keys t1 = insert f (ledger_keys t)" by auto
    from Cons.prems(2,3) st pm have e1: "e1 = None" and rest: "watch_files env fs t1 d1 = (None, t', d')"
      by (auto split: option.splits)
    from Cons.IH [OF o1 rest] Cons.prems(3) k1 True show ?thesis by auto
  qed
qed


lemma ledger_success_key: "ledger_success t p = Some v \<Longrightarrow> p \<in> ledger_keys t"
  by (auto simp: ledger_success_def ledger_keys_def split: json.splits option.splits
      dest: map_of_SomeD intro: rev_image_eqI)

lemma watch_cycle_next_scan:
  assumes obj: "processed t = JObject kvs"
    and cyc: "watch_cycle env inbox t d = (None, t', d')"
    and run: "\<forall>f \<in> set (filter (\<lambda>p. p \<notin> ledger_keys t) (candidates inbox)). \<not> interrupted env f"
  shows "find_new_files inbox t' =
     Inr (filter (\<lambda>f. \<not> stable env f) (filter (\<lambda>p. p \<notin> ledger_keys t) (candidates inbox)))"
proof -
  let ?new = "filter (\<lambda>p. p \<notin> ledger_keys t) (candidates inbox)"
  have scan: "find_new_files inbox t = Inr ?new" by (rule find_new_files_obj [OF obj])
  with cyc have wf: "watch_files env ?new t d = (None, t', d')"
    by (simp add: watch_cycle_def)
  from watch_files_keys [OF obj wf run]
  obtain kvs' where obj': "processed t' = JObject kvs'"
    and keys: "ledger_keys t' = ledger_keys t \<union> {f \<in> set ?new. stable env f}" by auto
  have "find_new_files inbox t' = Inr (filter (\<lambda>p. p \<notin> ledger_keys t') (candidates inbox))"
    by (rule find_new_files_obj [OF obj'])
  also have "filter (\<lambda>p. p \<notin> ledger_keys t') (candidates inbox) = filter (\<lambda>f. \<not> stable env f) ?new"
    unfolding keys filter_filter by (rule filter_cong) auto
  finally show ?thesis .
qed

text \<open>
  C1, as the code has it: the scan leaves out every identity that has a ledger entry,
  an entry with \<open>success = false\<close> as much as one with \<open>success = true\<close>. After a
  complete cycle (no exception, no termination signal) the next scan of the same inbox
  returns exactly the candidates that the cycle skipped as unstable: those are the only
  files that are listed again.
\<close>

theorem ledger_entry_blocks_relisting:
  "processed t = JObject kvs \<longrightarrow>
     (\<exists>new_files. find_new_files inbox t = Inr new_files \<and>
        (\<forall>p. p \<in> ledger_keys t \<longrightarrow> p \<notin> set new_files) \<and>
        (\<forall>p. ledger_success t p = Some (JBool False) \<longrightarrow> p \<notin> set new_files) \<and>
        (watch_cycle env inbox t d = (None, t', d') \<and>
         (\<forall>f \<in> set new_files. \<not> interrupted env f) \<longrightarrow>
           find_new_files inbox t' = Inr (filter (\<lambda>f. \<not> stable env f) new_files)))"
proof
  assume obj: "processed t = JObject kvs"
  let ?new = "filter (\<lambda>p. p \<notin> ledger_keys t) (candidates inbox)"
  have scan: "find_new_files inbox t = Inr ?new" by (rule find_new_files_obj [OF obj])
  have keys: "\<forall>p. p \<in> ledger_keys t \<longrightarrow> p \<notin> set ?new" by simp
  have failed: "\<forall>p. ledger_success t p = Some (JBool False) \<longrightarrow> p \<notin> set ?new"
    using ledger_success_key by fastforce
  have nxt: "watch_cycle env inbox t d = (None, t', d') \<and>
         (\<forall>f \<in> set ?new. \<not> interrupted env f) \<longrightarrow>
           find_new_files inbox t' = Inr (filter (\<lambda>f. \<not> stable env f) ?new)"
    using watch_cycle_next_scan [OF obj] by blast
  from scan keys failed nxt
  show "\<exists>new_files. find_new_files inbox t = Inr new_files \<and>
        (\<forall>p. p \<in> ledger_keys t \<longrightarrow> p \<notin> set new_files) \<and>
        (\<forall>p. ledger_success t p = Some (JBool False) \<longrightarrow> p \<notin> set new_files) \<and>
        (watch_cycle env inbox t d = (None, t', d') \<and>
         (\<forall>f \<in> set new_files. \<not> interrupted env f) \<longrightarrow>
           find_new_files inbox t' = Inr (filter (\<lambda>f. \<not> stable env f) new_files))"
    by blast
qed

text \<open>
  C1 as stated fails: a supported file in the inbox whose ledger entry has
  \<open>success = false\<close> is not returned by the scan.
\<close>

theorem failed_file_not_relisted_counterexample:
  "is_supported_file ''/srv/inbox/a.mp4'' \<and>
   ledger_success
     \<lparr>path = ''/srv/inbox/processed_files.json'',
      processed = JObject [(''/srv/inbox/a.mp4'', ledger_entry ''2026-01-01T00:00:00'' False)]\<rparr>
     ''/srv/inbox/a.mp4'' = Some (JBool False) \<and>
   find_new_files
     (Some [\<lparr>entry_path = ''/srv/inbox/a.mp4'', entry_is_file = True,
             entry_resolved = ''/srv/inbox/a.mp4''\<rparr>])
     \<lparr>path = ''/srv/inbox/processed_files.json'',
      processed = JObject [(''/srv/inbox/a.mp4'', ledger_entry ''2026-01-01T00:00:00'' False)]\<rparr>
     = Inr []"
  by code_simp

text \<open>
  C8: the constructor does raise on one kind of damaged store. A tracker file whose
  bytes are not valid text makes \<open>read_text\<close> raise \<open>UnicodeDecodeError\<close>, which the
  handler for \<open>(json.JSONDecodeError, OSError)\<close> does not catch. A store that holds a
  JSON document other than an object loads without an error, and the ledger made from
  \<open>null\<close> raises \<open>TypeError\<close> on the first \<open>is_processed\<close>.
\<close>

theorem FileTracker_raises_on_undecodable_store:
  "FileTracker ''/srv/inbox/processed_files.json''
     \<lparr>files = (\<lambda>_. Absent)(''/srv/inbox/processed_files.json'' := Undecodable), plan = []\<rparr>
     = Inl UnicodeDecodeError \<and>
   FileTracker ''/srv/inbox/processed_files.json''
     \<lparr>files = (\<lambda>_. Absent)(''/srv/inbox/processed_files.json'' := Holds JNull), plan = []\<rparr>
     = Inr \<lparr>path = ''/srv/inbox/processed_files.json'', processed = JNull\<rparr> \<and>
   is_processed \<lparr>path = ''/srv/inbox/processed_files.json'', processed = JNull\<rparr>
     ''/srv/inbox/a.mp4'' = Inl TypeError"
  by (simp add: FileTracker_def load_def is_processed_def)

text \<open>The kinds of damage the handler does cover: a missing, unreadable or unparsable file.\<close>

lemma FileTracker_tolerates_damage:
  "files d p = Absent \<or> files d p = Unreadable \<or> files d p = Malformed \<Longrightarrow>
   FileTracker p d = Inr \<lparr>path = p, processed = JObject []\<rparr>"
  by (auto simp: FileTracker_def load_def)

text \<open>
  A cycle over two new files: \<open>a.mp4\<close> is stable and its processing fails, \<open>b.mp4\<close>
  grows during the wait. The next scan returns \<open>b.mp4\<close> only.
\<close>

theorem ledger_entry_blocks_relisting_witness:
  "processed \<lparr>path = ''/srv/inbox/processed_files.json'', processed = JObject []\<rparr> = JObject [] \<and>
   find_new_files
     (Some [\<lparr>entry_path = ''/srv/inbox/a.mp4'', entry_is_file = True, entry_resolved = ''/srv/inbox/a.mp4''\<rparr>,
            \<lparr>entry_path = ''/srv/inbox/b.mp4'', entry_is_file = True, entry_resolved = ''/srv/inbox/b.mp4''\<rparr>])
     \<lparr>path = ''/srv/inbox/processed_files.json'', processed = JObject []\<rparr>
     = Inr [''/srv/inbox/a.mp4'', ''/srv/inbox/b.mp4''] \<and>
   fst (watch_cycle
     \<lparr>size_before = (\<lambda>p. if p = ''/srv/inbox/b.mp4'' then Some 10 else Some 50),
      size_after = (\<lambda>p. if p = ''/srv/inbox/b.mp4'' then Some 20 else Some 50),
      processor = (\<lambda>_. Inr False), stamp = (\<lambda>_. ''2026-01-01T00:00:00''),
      interrupted = (\<lambda>_. False)\<rparr>
     (Some [\<lparr>entry_path = ''/srv/inbox/a.mp4'', entry_is_file = True, entry_resolved = ''/srv/inbox/a.mp4''\<rparr>,
            \<lparr>entry_path = ''/srv/inbox/b.mp4'', entry_is_file = True, entry_resolved = ''/srv/inbox/b.mp4''\<rparr>])
     \<lparr>path = ''/srv/inbox/processed_files.json'', processed = JObject []\<rparr>
     \<lparr>files = (\<lambda>_. Absent), plan = []\<rparr>) = None \<and>
   find_new_files
     (Some [\<lparr>entry_path = ''/srv/inbox/a.mp4'', entry_is_file = True, entry_resolved = ''/srv/inbox/a.mp4''\<rparr>,
            \<lparr>entry_path = ''/srv/inbox/b.mp4'', entry_is_file = True, entry_resolved = ''/srv/inbox/b.mp4''\<rparr>])
     (fst (snd (watch_cycle
       \<lparr>size_before = (\<lambda>p. if p = ''/srv/inbox/b.mp4'' then Some 10 else Some 50),
        size_after = (\<lambda>p. if p = ''/srv/inbox/b.mp4'' then Some 20 else Some 50),
        processor = (\<lambda>_. Inr False), stamp = (\<lambda>_. ''2026-01-01T00:00:00''),
        interrupted = (\<lambda>_. False)\<rparr>
       (Some [\<lparr>entry_path = ''/srv/inbox/a.mp4'', entry_is_file = True, entry_resolved = ''/srv/inbox/a.mp4''\<rparr>,
              \<lparr>entry_path = ''/srv/inbox/b.mp4'', entry_is_file = True, entry_resolved = ''/srv/inbox/b.mp4''\<rparr>])
       \<lparr>path = ''/srv/inbox/processed_files.json'', processed = JObject []\<rparr>
       \<lparr>files = (\<lambda>_. Absent), plan = []\<rparr>)))
     = Inr [''/srv/inbox/b.mp4'']"
proof -
  let ?t = "\<lparr>path = ''/srv/inbox/processed_files.json'', processed = JObject []\<rparr>"
  let ?inbox = "Some [\<lparr>entry_path = ''/srv/inbox/a.mp4'', entry_is_file = True, entry_resolved = ''/srv/inbox/a.mp4''\<rparr>,
            \<lparr>entry_path = ''/srv/inbox/b.mp4'', entry_is_file = True, entry_resolved = ''/srv/inbox/b.mp4''\<rparr>]"
  let ?env = "\<lparr>size_before = (\<lambda>p. if p = ''/srv/inbox/b.mp4'' then Some 10 else Some 50),
      size_after = (\<lambda>p. if p = ''/srv/inbox/b.mp4'' then Some 20 else Some 50),
      processor = (\<lambda>_. Inr False), stamp = (\<lambda>_. ''2026-01-01T00:00:00''),
      interrupted = (\<lambda>_. False)\<rparr>"
  let ?d = "\<lparr>files = (\<lambda>_. Absent), plan = []\<rparr>"
  let ?r = "watch_cycle ?env ?inbox ?t ?d"
  have scan: "find_new_files ?inbox ?t = Inr [''/srv/inbox/a.mp4'', ''/srv/inbox/b.mp4'']"
    by code_simp
  have ok: "fst ?r = None" by code_simp
  have st: "\<not> stable ?env ''/srv/inbox/b.mp4''" "stable ?env ''/srv/inbox/a.mp4''" by code_simp+
  have cyc: "?r = (None, fst (snd ?r), snd (snd ?r))"
    using ok by (simp add: prod_eq_iff)
  from ledger_entry_blocks_relisting [of ?t "[]" ?inbox ?env ?d "fst (snd ?r)" "snd (snd ?r)"]
    scan cyc st ok
  show ?thesis by simp
qed

section \<open>Properties of the Zoom client\<close>

lemma refresh_token_success:
  assumes "refresh_token env c db = (Inr True, c', db', evs)"
  shows "\<exists>token rt resp data new_token row.
         db (user_label c) = Some token \<and> row_refresh_token token = Some rt \<and>
         post env rt = Inr resp \<and> status_code resp = 200 \<and> body resp = Some data \<and>
         grant_access_token data = Some new_token \<and>
         row_user_label row = user_label c \<and>
         row_access_token row = new_token \<and>
         row_refresh_token row =
           Some (case grant_refresh_token data of None \<Rightarrow> rt | Some r \<Rightarrow> r) \<and>
         row_expires_at row =
           py_int (clock env) + (case grant_expires_in data of None \<Rightarrow> 3600 | Some n \<Rightarrow> n) \<and>
         db' = db(user_label c \<mapsto> row) \<and>
         evs = [TokenRequest rt, DbWrite row] \<and>
         access_token c' = new_token \<and> expires_at c' = row_expires_at row"
  using assms unfolding refresh_token_def Let_def
  by (auto split: option.splits sum.splits if_splits)

lemma refresh_token_failure:
  assumes "refresh_token env c db = (r, c', db', evs)" and "r \<noteq> Inr True"
  shows "c' = c \<and> db' = db \<and> (\<forall>row. DbWrite row \<notin> set evs)"
  using assms unfolding refresh_token_def Let_def
  by (auto split: option.splits sum.splits if_splits)

text \<open>
  C5: when the token endpoint answers the refresh with a status other than 200,
  \<open>refresh_token\<close> returns \<open>False\<close> and the stored row and the client's token are as
  before; nothing is written unless it returns \<open>True\<close>. When it returns \<open>True\<close>, one row
  was written to the store, holding the new access token, the new refresh token (the
  prior one when the response has none) and the new expiry; and it does return \<open>True\<close>
  when the endpoint answers 200 with an access token and the store accepts the write.
\<close>

theorem refresh_token_outcomes:
  "(db_read env = None \<and> db (user_label c) = Some token \<and> row_refresh_token token = Some rt \<and>
    rt \<noteq> [] \<and> post env rt = Inr resp \<and> status_code resp \<noteq> 200 \<longrightarrow>
      refresh_token env c db = (Inr False, c, db, [TokenRequest rt])) \<and>
   (refresh_token env c db = (Inr True, c', db', evs) \<longrightarrow>
      (\<exists>token rt resp data new_token row.
         db (user_label c) = Some token \<and> row_refresh_token token = Some rt \<and>
         post env rt = Inr resp \<and> status_code resp = 200 \<and> body resp = Some data \<and>
         grant_access_token data = Some new_token \<and>
         row_user_label row = user_label c \<and>
         row_access_token row = new_token \<and>
         row_refresh_token row =
           Some (case grant_refresh_token data of None \<Rightarrow> rt | Some r \<Rightarrow> r) \<and>
         row_expires_at row =
           py_int (clock env) + (case grant_expires_in data of None \<Rightarrow> 3600 | Some n \<Rightarrow> n) \<and>
         db' = db(user_label c \<mapsto> row) \<and>
         evs = [TokenRequest rt, DbWrite row] \<and>
         access_token c' = new_token \<and> expires_at c' = row_expires_at row)) \<and>
   (db_read env = None \<and> db (user_label c) = Some token \<and> row_refresh_token token = Some rt \<and>
    rt \<noteq> [] \<and> post env rt = Inr resp \<and> status_code resp = 200 \<and> body resp = Some data \<and>
    grant_access_token data = Some new_token \<and> db_write env = None \<longrightarrow>
      fst (refresh_token env c db) = Inr True) \<and>
   (refresh_token env c db = (r, c', db', evs) \<and> r \<noteq> Inr True \<longrightarrow>
      c' = c \<and> db' = db \<and> (\<forall>row. DbWrite row \<notin> set evs))"
proof (intro conjI impI)
  assume "refresh_token env c db = (r, c', db', evs) \<and> r \<noteq> Inr True"
  then show "c' = c" "db' = db" "\<forall>row. DbWrite row \<notin> set evs"
    using refresh_token_failure by blast+
next
  assume "db_read env = None \<and> db (user_label c) = Some token \<and> row_refresh_token token = Some rt \<and>
    rt \<noteq> [] \<and> post env rt = Inr resp \<and> status_code resp \<noteq> 200"
  then show "refresh_token env c db = (Inr False, c, db, [TokenRequest rt])"
    by (simp add: refresh_token_def)
next
  assume "db_read env = None \<and> db (user_label c) = Some token \<and> row_refresh_token token = Some rt \<and>
    rt \<noteq> [] \<and> post env rt = Inr resp \<and> status_code resp = 200 \<and> body resp = Some data \<and>
    grant_access_token data = Some new_token \<and> db_write env = None"
  then show "fst (refresh_token env c db) = Inr True"
    by (simp add: refresh_token_def Let_def)
next
  assume ok: "refresh_token env c db = (Inr True, c', db', evs)"
  then show "\<exists>token rt resp data new_token row.
         db (user_label c) = Some token \<and> row_refresh_token token = Some rt \<and>
         post env rt = Inr resp \<and> status_code resp = 200 \<and> body resp = Some data \<and>
         grant_access_token data = Some new_token \<and>
         row_user_label row = user_label c \<and>
         row_access_token row = new_token \<and>
         row_refresh_token row =
           Some (case grant_refresh_token data of None \<Rightarrow> rt | Some r \<Rightarrow> r) \<and>
         row_expires_at row =
           py_int (clock env) + (case grant_expires_in data of None \<Rightarrow> 3600 | Some n \<Rightarrow> n) \<and>
         db' = db(user_label c \<mapsto> row) \<and>
         evs = [TokenRequest rt, DbWrite row] \<and>
         access_token c' = new_token \<and> expires_at c' = row_expires_at row"
    by (rule refresh_token_success)
qed


theorem refresh_token_outcomes_witness:
  "refresh_token
     \<lparr>clock = 2000.5, db_read = None,
      post = (\<lambda>_. Inr \<lparr>status_code = 400, body = None\<rparr>),
      db_write = None, utcnow = ''2026-01-01T00:00:00''\<rparr>
     \<lparr>user_label = ''default'', access_token = ''old'', expires_at = 1000\<rparr>
     [''default'' \<mapsto>
        \<lparr>row_user_label = ''default'', row_access_token = ''old'',
         row_refresh_token = Some ''r0'', row_expires_at = 1000,
         row_scopes = Some ''recording:read'', row_updated_at = ''2025-12-31T23:00:00''\<rparr>]
   = (Inr False,
      \<lparr>user_label = ''default'', access_token = ''old'', expires_at = 1000\<rparr>,
      [''default'' \<mapsto>
        \<lparr>row_user_label = ''default'', row_access_token = ''old'',
         row_refresh_token = Some ''r0'', row_expires_at = 1000,
         row_scopes = Some ''recording:read'', row_updated_at = ''2025-12-31T23:00:00''\<rparr>],
      [TokenRequest ''r0'']) \<and>
   refresh_token
     \<lparr>clock = 2000.5, db_read = None,
      post = (\<lambda>_. Inr \<lparr>status_code = 200,
                body = Some \<lparr>grant_access_token = Some ''new'', grant_refresh_token = None,
                             grant_expires_in = None, grant_scope = None\<rparr>\<rparr>),
      db_write = None, utcnow = ''2026-01-01T00:00:00''\<rparr>
     \<lparr>user_label = ''default'', access_token = ''old'', expires_at = 1000\<rparr>
     [''default'' \<mapsto>
        \<lparr>row_user_label = ''default'', row_access_token = ''old'',
         row_refresh_token = Some ''r0'', row_expires_at = 1000,
         row_scopes = Some ''recording:read'', row_updated_at = ''2025-12-31T23:00:00''\<rparr>]
   = (Inr True,
      \<lparr>user_label = ''default'', access_token = ''new'', expires_at = 5600\<rparr>,
      [''default'' \<mapsto>
        \<lparr>row_user_label = ''default'', row_access_token = ''new'',
         row_refresh_token = Some ''r0'', row_expires_at = 5600,
         row_scopes = Some ''recording:read'', row_updated_at = ''2026-01-01T00:00:00''\<rparr>],
      [TokenRequest ''r0'',
       DbWrite \<lparr>row_user_label = ''default'', row_access_token = ''new'',
         row_refresh_token = Some ''r0'', row_expires_at = 5600,
         row_scopes = Some ''recording:read'', row_updated_at = ''2026-01-01T00:00:00''\<rparr>])"
  using refresh_token_outcomes
    [where env = "\<lparr>clock = 2000.5, db_read = None,
      post = (\<lambda>_. Inr \<lparr>status_code = 400, body = None\<rparr>),
      db_write = None, utcnow = ''2026-01-01T00:00:00''\<rparr>"
     and c = "\<lparr>user_label = ''default'', access_token = ''old'', expires_at = 1000\<rparr>"
     and db = "[''default'' \<mapsto>
        \<lparr>row_user_label = ''default'', row_access_token = ''old'',
         row_refresh_token = Some ''r0'', row_expires_at = 1000,
         row_scopes = Some ''recording:read'', row_updated_at = ''2025-12-31T23:00:00''\<rparr>]"
     and rt = "''r0''" and resp = "\<lparr>status_code = 400, body = None\<rparr>"]
  by (simp add: refresh_token_def py_int_def Let_def)






section \<open>Properties of the topic sanitizer\<close>










section \<open>Properties of the poll loop\<close>

lemma poll_meeting_no_uuid:
  "uuid m = None \<or> uuid m = Some [] \<Longrightarrow> poll_meeting env processed_uuids m s = (None, False, s)"
  by (auto simp: poll_meeting_def)

lemma poll_meetings_filter:
  "poll_meetings env processed_uuids ms n s =
   poll_meetings env processed_uuids (filter (\<lambda>m. uuid m \<noteq> None \<and> uuid m \<noteq> Some []) ms) n s"
proof (induction ms arbitrary: n s)
  case Nil
  show ?case by simp
next
  case (Cons m ms)
  show ?case
  proof (cases "uuid m = None \<or> uuid m = Some []")
    case True
    then have "poll_meeting env processed_uuids m s = (None, False, s)"
      by (rule poll_meeting_no_uuid)
    with True Cons.IH show ?thesis by auto
  next
    case False
    with Cons.IH show ?thesis by (auto split: prod.splits option.splits)
  qed
qed

lemma write_artifacts_ledger:
  "ledger (snd (snd (write_artifacts env m local_dir key_prefix vtt meta row s))) = ledger s \<or>
   ledger (snd (snd (write_artifacts env m local_dir key_prefix vtt meta row s))) = ledger s @ [row]"
  by (simp add: write_artifacts_def Let_def split: option.split)

lemma save_transcript_ledger:
  assumes "save_transcript env m u tr s = (err, counted, s')" and "u \<noteq> []"
    and "r \<in> set (ledger s')"
  shows "r \<in> set (ledger s) \<or> meeting_uuid r \<noteq> []"
proof -
  from assms(1) obtain local_dir key_prefix vtt meta row
    where w: "write_artifacts env m local_dir key_prefix vtt meta row s = (err, counted, s')"
      and u: "meeting_uuid row = u"
    unfolding save_transcript_def Let_def by fastforce
  from write_artifacts_ledger [of env m local_dir key_prefix vtt meta row s] w
  have "ledger s' = ledger s \<or> ledger s' = ledger s @ [row]" by simp
  with assms(2,3) u show ?thesis by auto
qed

lemma poll_meeting_ledger:
  assumes "poll_meeting env processed_uuids m s = (err, counted, s')"
    and "row \<in> set (ledger s')"
  shows "row \<in> set (ledger s) \<or> meeting_uuid row \<noteq> []"
proof (cases "uuid m = None \<or> uuid m = Some []")
  case True
  with assms show ?thesis by (auto simp: poll_meeting_no_uuid)
next
  case False
  then obtain u where u: "uuid m = Some u" "u \<noteq> []" by auto
  show ?thesis
  proof (cases "u \<in> set processed_uuids")
    case True
    with assms u show ?thesis by (simp add: poll_meeting_def)
  next
    case False
    obtain r c' db' evs where g: "get_meeting_transcript (transcript_world env m)
                (case meeting_id m of None \<Rightarrow> [] | Some i \<Rightarrow> i) (client s) (tokens s) = (r, c', db', evs)"
      by (metis prod_cases4)
    show ?thesis
    proof (cases r)
      case (Inl e)
      with assms u False g show ?thesis by (auto simp: poll_meeting_def fetched_def)
    next
      case (Inr topt)
      show ?thesis
      proof (cases topt)
        case None
        with Inr assms u False g show ?thesis by (auto simp: poll_meeting_def fetched_def)
      next
        case (Some tr)
        with Inr assms u False g
        have "save_transcript env m u tr (fetched s c' db' evs) = (err, counted, s')"
          by (simp add: poll_meeting_def)
        from save_transcript_ledger [OF this u(2) assms(2)]
        show ?thesis by (simp add: fetched_def)
      qed
    qed
  qed
qed

lemma poll_meetings_ledger:
  "poll_meetings env processed_uuids ms n s = (err, n', s') \<Longrightarrow> row \<in> set (ledger s') \<Longrightarrow>
   row \<in> set (ledger s) \<or> meeting_uuid row \<noteq> []"
proof (induction ms arbitrary: n s)
  case Nil
  then show ?case by simp
next
  case (Cons m ms)
  obtain e1 k1 s1 where pm: "poll_meeting env processed_uuids m s = (e1, k1, s1)"
    by (metis prod_cases3)
  show ?case
  proof (cases e1)
    case (Some e)
    with Cons.prems pm have "s' = s1" by simp
    with poll_meeting_ledger [OF pm] Cons.prems(2) show ?thesis by simp
  next
    case None
    with Cons.prems(1) pm
    have "poll_meetings env processed_uuids ms (if k1 then Suc n else n) s1 = (err, n', s')"
      by simp
    from Cons.IH [OF this Cons.prems(2)] poll_meeting_ledger [OF pm]
    show ?thesis by blast
  qed
qed

text \<open>
  C9: a listed meeting whose \<open>uuid\<close> is missing or empty is skipped whole: the loop body
  returns at once with the state as it was (no detail request, no file, no mirror call,
  no ledger row), so a pass over a listing equals the pass over the listing without
  such meetings, and no row with an empty identifier enters the ledger.
\<close>

theorem meeting_without_uuid_skipped:
  "((uuid m = None \<or> uuid m = Some []) \<longrightarrow>
      poll_meeting env processed_uuids m s = (None, False, s)) \<and>
   poll_meetings env processed_uuids ms n s =
     poll_meetings env processed_uuids
       (filter (\<lambda>m. uuid m \<noteq> None \<and> uuid m \<noteq> Some []) ms) n s \<and>
   (\<forall>row \<in> set (ledger (snd (snd (poll_meetings env processed_uuids ms n s)))).
      row \<in> set (ledger s) \<or> meeting_uuid row \<noteq> [])"
proof (intro conjI impI ballI)
  assume "uuid m = None \<or> uuid m = Some []"
  then show "poll_meeting env processed_uuids m s = (None, False, s)"
    by (rule poll_meeting_no_uuid)
next
  show "poll_meetings env processed_uuids ms n s =
     poll_meetings env processed_uuids
       (filter (\<lambda>m. uuid m \<noteq> None \<and> uuid m \<noteq> Some []) ms) n s"
    by (rule poll_meetings_filter)
next
  fix row
  assume r: "row \<in> set (ledger (snd (snd (poll_meetings env processed_uuids ms n s))))"
  obtain err n' s' where p: "poll_meetings env processed_uuids ms n s = (err, n', s')"
    by (metis prod_cases3)
  with r have "row \<in> set (ledger s')" by simp
  from poll_meetings_ledger [OF p this]
  show "row \<in> set (ledger s) \<or> meeting_uuid row \<noteq> []" .
qed


theorem meeting_without_uuid_skipped_witness:
  "uuid (ex_meeting None) = None \<and>
   poll_meeting
     (ex_poll_env \<lparr>status_code = 200,
        body = Some [\<lparr>file_type = Some ''TRANSCRIPT'', recording_type = None,
                      download_url = Some ''https://zoom.us/rec/download/x''\<rparr>]\<rparr>)
     [] (ex_meeting None) ex_state = (None, False, ex_state) \<and>
   poll_meeting
     (ex_poll_env \<lparr>status_code = 200,
        body = Some [\<lparr>file_type = Some ''TRANSCRIPT'', recording_type = None,
                      download_url = Some ''https://zoom.us/rec/download/x''\<rparr>]\<rparr>)
     [] (ex_meeting (Some [])) ex_state = (None, False, ex_state) \<and>
   fst (snd (poll_meeting
     (ex_poll_env \<lparr>status_code = 200,
        body = Some [\<lparr>file_type = Some ''TRANSCRIPT'', recording_type = None,
                      download_url = Some ''https://zoom.us/rec/download/x''\<rparr>]\<rparr>)
     [] (ex_meeting (Some (ustr ''B''))) ex_state))"
  using meeting_without_uuid_skipped
    [where m = "ex_meeting None" and s = ex_state and processed_uuids = "[]" and ms = "[]"
       and env = "ex_poll_env \<lparr>status_code = 200,
        body = Some [\<lparr>file_type = Some ''TRANSCRIPT'', recording_type = None,
                      download_url = Some ''https://zoom.us/rec/download/x''\<rparr>]\<rparr>"]
    meeting_without_uuid_skipped
    [where m = "ex_meeting (Some [])" and s = ex_state and processed_uuids = "[]" and ms = "[]"
       and env = "ex_poll_env \<lparr>status_code = 200,
        body = Some [\<lparr>file_type = Some ''TRANSCRIPT'', recording_type = None,
                      download_url = Some ''https://zoom.us/rec/download/x''\<rparr>]\<rparr>"]
  by (simp add: ex_meeting_def poll_meeting_def get_meeting_transcript_def api_get_def
      authed_get_def ensure_token_def raise_for_status_def ex_poll_env_def
      ex_transcript_env_def ex_state_def ex_client_def is_transcript_file_def
      save_transcript_def write_artifacts_def fetched_def ustr_def Let_def)

lemma fetched_keeps:
  "ledger (fetched s c db evs) = ledger s \<and> local_files (fetched s c db evs) = local_files s \<and>
   mirrored (fetched s c db evs) = mirrored s \<and>
   zoom_transcript_count (fetched s c db evs) = zoom_transcript_count s"
  by (simp add: fetched_def)

lemma transcript_not_found:
  "api_get (detail tenv) (''/meetings/'' @ mid @ ''/recordings'') c db
     = (Inl (HTTPStatusError 404), c1, db1, evs1) \<Longrightarrow>
   get_meeting_transcript tenv mid c db = (Inr None, c1, db1, evs1)"
  by (simp add: get_meeting_transcript_def)

lemma transcript_error_propagates:
  "api_get (detail tenv) (''/meetings/'' @ mid @ ''/recordings'') c db = (Inl e, c1, db1, evs1) \<Longrightarrow>
   e \<noteq> HTTPStatusError 404 \<Longrightarrow>
   get_meeting_transcript tenv mid c db = (Inl e, c1, db1, evs1)"
  by (cases e) (simp_all add: get_meeting_transcript_def)

lemma api_get_status:
  assumes "ensure_token (check_time genv) (refresh genv) c db = (None, c1, db1, evs1)"
    and "get genv (ZOOM_API_BASE @ p) (access_token c1) = Inr resp"
    and "\<not> (200 \<le> status_code resp \<and> status_code resp < 300)"
  shows "api_get genv p c db =
     (Inl (HTTPStatusError (status_code resp)), c1, db1,
      evs1 @ [ApiRequest (ZOOM_API_BASE @ p) (access_token c1)])"
proof -
  from assms(3) have "raise_for_status resp = Some (HTTPStatusError (status_code resp))"
    by (auto simp: raise_for_status_def)
  with assms(1,2) show ?thesis by (simp add: api_get_def authed_get_def)
qed

text \<open>
  C6: \<open>get_meeting_transcript\<close> returns \<open>None\<close> when the detail request raises
  \<open>HTTPStatusError\<close> with status 404 and raises every other exception of that request
  again; so a detail answer of 404 gives \<open>None\<close> and any other status outside 2xx gives
  the error. In the loop a meeting with a new identifier whose transcript is \<open>None\<close> is
  passed over with the ledger, the local files and the mirror unchanged; an exception
  of the fetch leaves the loop with that exception.
\<close>

theorem missing_transcript_skipped:
  "(api_get (detail tenv) (''/meetings/'' @ mid @ ''/recordings'') c db
      = (Inl (HTTPStatusError 404), c1, db1, evs1) \<longrightarrow>
      get_meeting_transcript tenv mid c db = (Inr None, c1, db1, evs1)) \<and>
   (api_get (detail tenv) (''/meetings/'' @ mid @ ''/recordings'') c db = (Inl e, c1, db1, evs1) \<and>
    e \<noteq> HTTPStatusError 404 \<longrightarrow>
      get_meeting_transcript tenv mid c db = (Inl e, c1, db1, evs1)) \<and>
   (ensure_token (check_time (detail tenv)) (refresh (detail tenv)) c db = (None, c1, db1, evs1) \<and>
    get (detail tenv) (ZOOM_API_BASE @ ''/meetings/'' @ mid @ ''/recordings'') (access_token c1)
      = Inr resp \<and>
    \<not> (200 \<le> status_code resp \<and> status_code resp < 300) \<longrightarrow>
      get_meeting_transcript tenv mid c db =
        (if status_code resp = 404 then Inr None else Inl (HTTPStatusError (status_code resp)),
         c1, db1,
         evs1 @ [ApiRequest (ZOOM_API_BASE @ ''/meetings/'' @ mid @ ''/recordings'')
                   (access_token c1)])) \<and>
   (uuid m = Some u \<and> u \<noteq> [] \<and> u \<notin> set processed_uuids \<longrightarrow>
      (get_meeting_transcript (transcript_world env m)
           (case meeting_id m of None \<Rightarrow> [] | Some i \<Rightarrow> i) (client s) (tokens s)
         = (Inr None, c2, db2, evs2) \<longrightarrow>
         poll_meeting env processed_uuids m s = (None, False, fetched s c2 db2 evs2) \<and>
         ledger (fetched s c2 db2 evs2) = ledger s \<and>
         local_files (fetched s c2 db2 evs2) = local_files s \<and>
         mirrored (fetched s c2 db2 evs2) = mirrored s) \<and>
      (get_meeting_transcript (transcript_world env m)
           (case meeting_id m of None \<Rightarrow> [] | Some i \<Rightarrow> i) (client s) (tokens s)
         = (Inl e2, c2, db2, evs2) \<longrightarrow>
         poll_meeting env processed_uuids m s = (Some e2, False, fetched s c2 db2 evs2) \<and>
         poll_meetings env processed_uuids (m # ms) n s = (Some e2, n, fetched s c2 db2 evs2)))"
proof (intro conjI impI)
  assume "api_get (detail tenv) (''/meetings/'' @ mid @ ''/recordings'') c db
      = (Inl (HTTPStatusError 404), c1, db1, evs1)"
  then show "get_meeting_transcript tenv mid c db = (Inr None, c1, db1, evs1)"
    by (rule transcript_not_found)
next
  assume "api_get (detail tenv) (''/meetings/'' @ mid @ ''/recordings'') c db = (Inl e, c1, db1, evs1) \<and>
    e \<noteq> HTTPStatusError 404"
  then show "get_meeting_transcript tenv mid c db = (Inl e, c1, db1, evs1)"
    using transcript_error_propagates by blast
next
  assume a: "ensure_token (check_time (detail tenv)) (refresh (detail tenv)) c db = (None, c1, db1, evs1) \<and>
    get (detail tenv) (ZOOM_API_BASE @ ''/meetings/'' @ mid @ ''/recordings'') (access_token c1)
      = Inr resp \<and>
    \<not> (200 \<le> status_code resp \<and> status_code resp < 300)"
  then have g: "api_get (detail tenv) (''/meetings/'' @ mid @ ''/recordings'') c db =
     (Inl (HTTPStatusError (status_code resp)), c1, db1,
      evs1 @ [ApiRequest (ZOOM_API_BASE @ ''/meetings/'' @ mid @ ''/recordings'') (access_token c1)])"
    using api_get_status [of "detail tenv" c db c1 db1 evs1 "''/meetings/'' @ mid @ ''/recordings''" resp]
    by simp
  show "get_meeting_transcript tenv mid c db =
        (if status_code resp = 404 then Inr None else Inl (HTTPStatusError (status_code resp)),
         c1, db1,
         evs1 @ [ApiRequest (ZOOM_API_BASE @ ''/meetings/'' @ mid @ ''/recordings'')
                   (access_token c1)])"
  proof (cases "status_code resp = 404")
    case True
    with g show ?thesis by (simp add: transcript_not_found)
  next
    case False
    with g show ?thesis by (simp add: transcript_error_propagates)
  qed
next
  assume u: "uuid m = Some u \<and> u \<noteq> [] \<and> u \<notin> set processed_uuids"
    and g: "get_meeting_transcript (transcript_world env m)
           (case meeting_id m of None \<Rightarrow> [] | Some i \<Rightarrow> i) (client s) (tokens s)
         = (Inr None, c2, db2, evs2)"
  from u g show "poll_meeting env processed_uuids m s = (None, False, fetched s c2 db2 evs2)"
    by (simp add: poll_meeting_def)
  show "ledger (fetched s c2 db2 evs2) = ledger s" by (simp add: fetched_keeps)
  show "local_files (fetched s c2 db2 evs2) = local_files s" by (simp add: fetched_keeps)
  show "mirrored (fetched s c2 db2 evs2) = mirrored s" by (simp add: fetched_keeps)
next
  assume u: "uuid m = Some u \<and> u \<noteq> [] \<and> u \<notin> set processed_uuids"
    and g: "get_meeting_transcript (transcript_world env m)
           (case meeting_id m of None \<Rightarrow> [] | Some i \<Rightarrow> i) (client s) (tokens s)
         = (Inl e2, c2, db2, evs2)"
  from u g show pm: "poll_meeting env processed_uuids m s = (Some e2, False, fetched s c2 db2 evs2)"
    by (simp add: poll_meeting_def)
  then show "poll_meetings env processed_uuids (m # ms) n s = (Some e2, n, fetched s c2 db2 evs2)"
    by simp
qed


theorem missing_transcript_skipped_witness:
  "get_meeting_transcript (ex_transcript_env \<lparr>status_code = 404, body = None\<rparr>) ''123''
     ex_client ex_tokens
   = (Inr None, ex_client, ex_tokens,
      [ApiRequest ''https://api.zoom.us/v2/meetings/123/recordings'' ''tok'']) \<and>
   get_meeting_transcript (ex_transcript_env \<lparr>status_code = 500, body = None\<rparr>) ''123''
     ex_client ex_tokens
   = (Inl (HTTPStatusError 500), ex_client, ex_tokens,
      [ApiRequest ''https://api.zoom.us/v2/meetings/123/recordings'' ''tok'']) \<and>
   poll_meeting (ex_poll_env \<lparr>status_code = 404, body = None\<rparr>) [ustr ''A'']
     (ex_meeting (Some (ustr ''B''))) ex_state
   = (None, False,
      ex_state\<lparr>requests :=
        [ApiRequest ''https://api.zoom.us/v2/meetings/123/recordings'' ''tok'']\<rparr>) \<and>
   poll_meeting (ex_poll_env \<lparr>status_code = 500, body = None\<rparr>) [ustr ''A'']
     (ex_meeting (Some (ustr ''B''))) ex_state
   = (Some (HTTPStatusError 500), False,
      ex_state\<lparr>requests :=
        [ApiRequest ''https://api.zoom.us/v2/meetings/123/recordings'' ''tok'']\<rparr>)"
  using missing_transcript_skipped
    [where tenv = "ex_transcript_env \<lparr>status_code = 404, body = None\<rparr>" and mid = "''123''"
       and c = ex_client and db = ex_tokens and ?c1.0 = ex_client and ?db1.0 = ex_tokens
       and ?evs1.0 = "[]" and resp = "\<lparr>status_code = 404, body = None\<rparr>"
       and env = "ex_poll_env \<lparr>status_code = 404, body = None\<rparr>"
       and m = "ex_meeting (Some (ustr ''B''))" and u = "ustr ''B''"
       and processed_uuids = "[ustr ''A'']" and s = ex_state
       and ?c2.0 = ex_client and ?db2.0 = ex_tokens
       and ?evs2.0 = "[ApiRequest ''https://api.zoom.us/v2/meetings/123/recordings'' ''tok'']"]
    missing_transcript_skipped
    [where tenv = "ex_transcript_env \<lparr>status_code = 500, body = None\<rparr>" and mid = "''123''"
       and c = ex_client and db = ex_tokens and ?c1.0 = ex_client and ?db1.0 = ex_tokens
       and ?evs1.0 = "[]" and resp = "\<lparr>status_code = 500, body = None\<rparr>"
       and env = "ex_poll_env \<lparr>status_code = 500, body = None\<rparr>"
       and m = "ex_meeting (Some (ustr ''B''))" and u = "ustr ''B''"
       and processed_uuids = "[ustr ''A'']" and s = ex_state
       and ?c2.0 = ex_client and ?db2.0 = ex_tokens
       and ?evs2.0 = "[ApiRequest ''https://api.zoom.us/v2/meetings/123/recordings'' ''tok'']"
       and ?e2.0 = "HTTPStatusError 500"]
  by (simp add: ex_meeting_def poll_meeting_def get_meeting_transcript_def api_get_def
      authed_get_def ensure_token_def raise_for_status_def ex_poll_env_def
      ex_transcript_env_def ex_state_def ex_client_def fetched_def ustr_def
      ZOOM_API_BASE_def)

section \<open>Properties of the mirror passes\<close>







end
